theory Spec2Isabelle
  imports Main
begin

text \<open>
  A shallow embedding of the Logseq AI helper plugin: the two Provider clients
  (\<open>OpenAIProvider\<close>, \<open>ClaudeProvider\<close>), the \<open>AIManager\<close> and the four slash commands
  registered by \<open>main\<close>. The source holds an earlier version of the plugin without the
  Claude client; the definitions follow the later, complete one.
\<close>

section \<open>Strings\<close>

text \<open>
  A JavaScript string is a sequence of UTF-16 code units. The model uses \<^typ>\<open>string\<close>:
  one \<^typ>\<open>char\<close> is one code unit in the range U+0000 .. U+00FF, so the theory speaks
  about the strings made of those code units. \<open>String.prototype.toLowerCase\<close> maps
  \<open>A-Z\<close> and the Latin-1 capitals U+00C0 .. U+00DE (without the multiplication sign U+00D7)
  to the letter 32 positions later and leaves the other code units of the range alone.
  \<open>String.prototype.trim\<close> removes white space and line terminators from both ends; in
  the range these are TAB, LF, VT, FF, CR, SPACE and NBSP.
\<close>

definition toLowerChar :: "char \<Rightarrow> char" where
  "toLowerChar c =
     (let n = (of_char c :: nat)
      in if (65 \<le> n \<and> n \<le> 90) \<or> (192 \<le> n \<and> n \<le> 222 \<and> n \<noteq> 215)
         then char_of (n + 32) else c)"

definition toLowerCase :: "string \<Rightarrow> string" where
  "toLowerCase s = map toLowerChar s"

definition isWhiteSpace :: "char \<Rightarrow> bool" where
  "isWhiteSpace c = ((of_char c :: nat) \<in> {9, 10, 11, 12, 13, 32, 160})"

definition trimStart :: "string \<Rightarrow> string" where
  "trimStart s = dropWhile isWhiteSpace s"

definition trimEnd :: "string \<Rightarrow> string" where
  "trimEnd s = rev (dropWhile isWhiteSpace (rev s))"

definition trim :: "string \<Rightarrow> string" where
  "trim s = trimEnd (trimStart s)"

section \<open>Errors and JSON values\<close>

text \<open>
  The code raises only \<open>new Error(message)\<close>. The platform raises errors of its own: a
  rejected \<open>fetch\<close>, a rejected \<open>response.json()\<close>, and the \<open>TypeError\<close> of a property
  read on \<open>undefined\<close> or \<open>null\<close> or of a call of something that is no function. Every
  error carries its \<open>message\<close>, which is all the code ever reads of it.
\<close>

datatype error = Error string | TypeError string | PlatformError string

fun message :: "error \<Rightarrow> string" where
  "message (Error s) = s"
| "message (TypeError s) = s"
| "message (PlatformError s) = s"

text \<open>
  What \<open>response.json()\<close> resolves to, and \<open>undefined\<close>, which a property read can yield.
  A number carries its literal text: no arithmetic is ever done on one. An object lists
  each of its keys once.
\<close>

datatype jsval =
    Undefined
  | Null
  | Boolean bool
  | Number string
  | String string
  | Array "jsval list"
  | Object "(string \<times> jsval) list"

text \<open>
  The property reads of the source, \<open>v.key\<close> for the keys \<open>choices\<close>, \<open>message\<close>,
  \<open>content\<close> and \<open>text\<close>, and \<open>v[0]\<close>. The first argument is the platform's text for the
  \<open>TypeError\<close> of a read on \<open>undefined\<close> or \<open>null\<close>, given the property read. None of
  the four keys is an own or inherited property of an array, a string, a number or a
  boolean, so the read yields \<open>undefined\<close> there; \<open>v[0]\<close> of a string is its first code unit.
\<close>

fun getProp :: "(string \<Rightarrow> string) \<Rightarrow> jsval \<Rightarrow> string \<Rightarrow> error + jsval" where
  "getProp te Undefined k = Inl (TypeError (te k))"
| "getProp te Null k = Inl (TypeError (te k))"
| "getProp te (Object kvs) k = (case map_of kvs k of None \<Rightarrow> Inr Undefined | Some v \<Rightarrow> Inr v)"
| "getProp te v k = Inr Undefined"

fun getIndex0 :: "(string \<Rightarrow> string) \<Rightarrow> jsval \<Rightarrow> error + jsval" where
  "getIndex0 te Undefined = Inl (TypeError (te ''0''))"
| "getIndex0 te Null = Inl (TypeError (te ''0''))"
| "getIndex0 te (Array []) = Inr Undefined"
| "getIndex0 te (Array (v # vs)) = Inr v"
| "getIndex0 te (String []) = Inr Undefined"
| "getIndex0 te (String (c # cs)) = Inr (String [c])"
| "getIndex0 te (Object kvs) = (case map_of kvs ''0'' of None \<Rightarrow> Inr Undefined | Some v \<Rightarrow> Inr v)"
| "getIndex0 te v = Inr Undefined"

text \<open>\<open>v.trim()\<close>: only a string has a callable \<open>trim\<close>.\<close>

fun callTrim :: "(string \<Rightarrow> string) \<Rightarrow> jsval \<Rightarrow> error + jsval" where
  "callTrim te (String s) = Inr (String (trim s))"
| "callTrim te v = Inl (TypeError (te ''trim''))"

section \<open>The network and the host\<close>

record request =
  url :: string
  "method" :: string
  headers :: "(string \<times> string) list"
  body :: jsval

record response =
  ok :: bool
  statusText :: string
  json :: "error + jsval"

record AIConfig =
  provider :: string
  apiKey :: string

record block =
  uuid :: string

text \<open>
  Everything outside the plugin, passed explicitly: the vendor endpoint (what \<open>fetch\<close>
  settles to for a request, given the requests made before it), the log of the requests
  made, the console, the host's settings store, selection and current block, and the logs
  of the host calls \<open>Editor.insertBlock\<close> and \<open>App.showMsg\<close>. The host calls themselves
  are taken to succeed. A handler is run to completion: the interleaving of two handlers
  at their suspension points is not modelled.
\<close>

record world =
  vendor :: "request list \<Rightarrow> request \<Rightarrow> error + response"
  typeErrorText :: "string \<Rightarrow> string"
  requests :: "request list"
  console :: "(string \<times> error) list"
  aiConfig :: "AIConfig option"
  selectedText :: "string option"
  currentBlock :: "block option"
  inserted :: "(string \<times> jsval \<times> bool) list"
  shown :: "(string \<times> string) list"

definition consoleError :: "string \<Rightarrow> error \<Rightarrow> world \<Rightarrow> world" where
  "consoleError label e w = w\<lparr>console := console w @ [(label, e)]\<rparr>"

definition showMsg :: "string \<Rightarrow> string \<Rightarrow> world \<Rightarrow> world" where
  "showMsg msg level w = w\<lparr>shown := shown w @ [(msg, level)]\<rparr>"

definition insertBlock :: "string \<Rightarrow> jsval \<Rightarrow> bool \<Rightarrow> world \<Rightarrow> world" where
  "insertBlock target content after w = w\<lparr>inserted := inserted w @ [(target, content, after)]\<rparr>"

text \<open>\<open>fetch\<close>: one request goes out and is logged; the vendor settles it.\<close>

definition fetch :: "request \<Rightarrow> world \<Rightarrow> (error + response) \<times> world" where
  "fetch req w = (vendor w (requests w) req, w\<lparr>requests := requests w @ [req]\<rparr>)"

section \<open>The Provider clients\<close>

datatype AIProvider = OpenAIProvider string | ClaudeProvider string

fun name :: "AIProvider \<Rightarrow> string" where
  "name (OpenAIProvider k) = ''OpenAI''"
| "name (ClaudeProvider k) = ''Claude''"

fun baseUrl :: "AIProvider \<Rightarrow> string" where
  "baseUrl (OpenAIProvider k) = ''https://api.openai.com/v1/chat/completions''"
| "baseUrl (ClaudeProvider k) = ''https://api.anthropic.com/v1/messages''"

fun buildRequest :: "AIProvider \<Rightarrow> string \<Rightarrow> request" where
  "buildRequest (OpenAIProvider k) prompt =
     \<lparr>url = baseUrl (OpenAIProvider k), method = ''POST'',
      headers = [(''Content-Type'', ''application/json''), (''Authorization'', ''Bearer '' @ k)],
      body = Object [(''model'', String ''gpt-3.5-turbo''),
                     (''messages'', Array [Object [(''role'', String ''user''),
                                                   (''content'', String prompt)]]),
                     (''temperature'', Number ''0.7'')]\<rparr>"
| "buildRequest (ClaudeProvider k) prompt =
     \<lparr>url = baseUrl (ClaudeProvider k), method = ''POST'',
      headers = [(''Content-Type'', ''application/json''), (''x-api-key'', k),
                 (''anthropic-version'', ''2023-06-01'')],
      body = Object [(''model'', String ''claude-2''),
                     (''messages'', Array [Object [(''role'', String ''user''),
                                                   (''content'', String prompt)]]),
                     (''max_tokens'', Number ''1024'')]\<rparr>"

text \<open>
  The last line of the \<open>try\<close> block: \<open>data.choices[0].message.content.trim()\<close> for OpenAI,
  \<open>data.content[0].text\<close> for Claude.
\<close>

fun extractText :: "AIProvider \<Rightarrow> (string \<Rightarrow> string) \<Rightarrow> jsval \<Rightarrow> error + jsval" where
  "extractText (OpenAIProvider k) te data =
     (case getProp te data ''choices'' of
        Inl e \<Rightarrow> Inl e
      | Inr choices \<Rightarrow>
          (case getIndex0 te choices of
             Inl e \<Rightarrow> Inl e
           | Inr choice \<Rightarrow>
               (case getProp te choice ''message'' of
                  Inl e \<Rightarrow> Inl e
                | Inr msg \<Rightarrow>
                    (case getProp te msg ''content'' of
                       Inl e \<Rightarrow> Inl e
                     | Inr content \<Rightarrow> callTrim te content))))"
| "extractText (ClaudeProvider k) te data =
     (case getProp te data ''content'' of
        Inl e \<Rightarrow> Inl e
      | Inr content \<Rightarrow>
          (case getIndex0 te content of
             Inl e \<Rightarrow> Inl e
           | Inr part \<Rightarrow> getProp te part ''text''))"

fun errorLabel :: "AIProvider \<Rightarrow> string" where
  "errorLabel (OpenAIProvider k) = ''OpenAI API error:''"
| "errorLabel (ClaudeProvider k) = ''Claude API error:''"

text \<open>The body of the \<open>try\<close> block of \<open>makeRequest\<close>, after \<open>fetch\<close> has settled.\<close>

definition readResponse :: "AIProvider \<Rightarrow> (string \<Rightarrow> string) \<Rightarrow> error + response \<Rightarrow> error + jsval" where
  "readResponse p te settled =
     (case settled of
        Inl e \<Rightarrow> Inl e
      | Inr resp \<Rightarrow>
          if \<not> ok resp then Inl (Error (''API request failed: '' @ statusText resp))
          else (case json resp of Inl e \<Rightarrow> Inl e | Inr data \<Rightarrow> extractText p te data))"

definition makeRequest :: "AIProvider \<Rightarrow> string \<Rightarrow> world \<Rightarrow> (error + jsval) \<times> world" where
  "makeRequest p prompt w =
     (case fetch (buildRequest p prompt) w of
        (settled, w1) \<Rightarrow>
          (case readResponse p (typeErrorText w1) settled of
             Inl e \<Rightarrow> (Inl e, consoleError (errorLabel p) e w1)
           | Inr v \<Rightarrow> (Inr v, w1)))"

definition summarizeText :: "AIProvider \<Rightarrow> string \<Rightarrow> world \<Rightarrow> (error + jsval) \<times> world" where
  "summarizeText p text w =
     makeRequest p (''Please provide a concise summary of the following text:'' @ [CHR 0x0A, CHR 0x0A] @ text) w"

definition improveWriting :: "AIProvider \<Rightarrow> string \<Rightarrow> world \<Rightarrow> (error + jsval) \<times> world" where
  "improveWriting p text w =
     makeRequest p (''Please improve the following text while maintaining its core message:'' @ [CHR 0x0A, CHR 0x0A] @ text) w"

definition changeWritingStyle :: "AIProvider \<Rightarrow> string \<Rightarrow> string \<Rightarrow> world \<Rightarrow> (error + jsval) \<times> world" where
  "changeWritingStyle p text style w =
     makeRequest p (''Please rewrite the following text in a '' @ style @ '' style:'' @ [CHR 0x0A, CHR 0x0A] @ text) w"

definition completeText :: "AIProvider \<Rightarrow> string \<Rightarrow> world \<Rightarrow> (error + jsval) \<times> world" where
  "completeText p text w =
     makeRequest p (''Please complete the following text naturally:'' @ [CHR 0x0A, CHR 0x0A] @ text) w"

section \<open>The Manager\<close>

record AIManager =
  provider :: "AIProvider option"
  config :: "AIConfig option"

definition aiManager :: AIManager where
  "aiManager = \<lparr>provider = None, config = None\<rparr>"

text \<open>
  A method returns its outcome (\<open>Inl\<close> the error thrown) together with the Manager as the
  call leaves it, so that what a failing call has or has not written stays visible.
\<close>

definition setProvider :: "string \<Rightarrow> string \<Rightarrow> AIManager \<Rightarrow> (error + unit) \<times> AIManager" where
  "setProvider providerName key m =
     (if toLowerCase providerName = ''openai''
        then (Inr (), m\<lparr>provider := Some (OpenAIProvider key)\<rparr>)
      else if toLowerCase providerName = ''claude''
        then (Inr (), m\<lparr>provider := Some (ClaudeProvider key)\<rparr>)
      else (Inl (Error (''Unsupported AI provider: '' @ providerName)), m))"

definition initialize :: "AIManager \<Rightarrow> world \<Rightarrow> (error + unit) \<times> AIManager" where
  "initialize m w =
     (case aiConfig w of
        None \<Rightarrow> (Inr (), m)
      | Some c \<Rightarrow> setProvider (AIConfig.provider c) (apiKey c) (m\<lparr>config := Some c\<rparr>))"

text \<open>\<open>style || 'professional'\<close>: an absent style and the empty string are both falsy.\<close>

definition styleOrDefault :: "string option \<Rightarrow> string" where
  "styleOrDefault style =
     (case style of None \<Rightarrow> ''professional'' | Some s \<Rightarrow> if s = [] then ''professional'' else s)"

text \<open>The \<open>switch\<close> inside the \<open>try\<close> block of \<open>executeAICommand\<close>.\<close>

definition dispatch :: "AIProvider \<Rightarrow> string \<Rightarrow> string \<Rightarrow> string option \<Rightarrow> world \<Rightarrow> (error + jsval) \<times> world" where
  "dispatch p command text style w =
     (if command = ''summarize'' then summarizeText p text w
      else if command = ''improve'' then improveWriting p text w
      else if command = ''style'' then changeWritingStyle p text (styleOrDefault style) w
      else if command = ''complete'' then completeText p text w
      else (Inl (Error (''Unknown command: '' @ command)), w))"

definition executeAICommand :: "string \<Rightarrow> string \<Rightarrow> string option \<Rightarrow> AIManager \<Rightarrow> world \<Rightarrow> (error + jsval) \<times> world" where
  "executeAICommand command text style m w =
     (case provider m of
        None \<Rightarrow> (Inl (Error ''AI provider not configured. Please set up your API key in settings.''), w)
      | Some p \<Rightarrow>
          (case dispatch p command text style w of
             (Inl e, w1) \<Rightarrow> (Inl e, consoleError ''AI command execution error:'' e w1)
           | (Inr v, w1) \<Rightarrow> (Inr v, w1)))"

section \<open>The command layer\<close>

definition getSelectedText :: "world \<Rightarrow> error + string" where
  "getSelectedText w =
     (case selectedText w of
        None \<Rightarrow> Inl (Error ''No text selected. Please select some text first.'')
      | Some text \<Rightarrow>
          if text = [] then Inl (Error ''No text selected. Please select some text first.'')
          else Inr text)"

text \<open>
  The four actions of \<open>main\<close> are one body, differing in the progress text, the command
  key and the style passed to the Manager: \<open>tryBody\<close> is the \<open>try\<close> block, \<open>handler\<close>
  the whole action with its \<open>catch\<close>.
\<close>

definition tryBody :: "string \<Rightarrow> string \<Rightarrow> string option \<Rightarrow> AIManager \<Rightarrow> world \<Rightarrow> (error + unit) \<times> world" where
  "tryBody progress command style m w =
     (case getSelectedText w of
        Inl e \<Rightarrow> (Inl e, w)
      | Inr text \<Rightarrow>
          (case executeAICommand command text style m (showMsg progress ''info'' w) of
             (Inl e, w1) \<Rightarrow> (Inl e, w1)
           | (Inr result, w1) \<Rightarrow>
               (case currentBlock w1 of
                  None \<Rightarrow> (Inr (), w1)
                | Some b \<Rightarrow> (Inr (), insertBlock (uuid b) result True w1))))"

definition handler :: "string \<Rightarrow> string \<Rightarrow> string option \<Rightarrow> AIManager \<Rightarrow> world \<Rightarrow> world" where
  "handler progress command style m w =
     (case tryBody progress command style m w of
        (Inl e, w1) \<Rightarrow> showMsg (message e) ''error'' w1
      | (Inr u, w1) \<Rightarrow> w1)"

record command =
  key :: string
  label :: string
  action :: "AIManager \<Rightarrow> world \<Rightarrow> world"

definition commands :: "command list" where
  "commands =
     [\<lparr>key = ''summarize'', label = ''Summarize text'',
       action = handler ''Summarizing text...'' ''summarize'' None\<rparr>,
      \<lparr>key = ''improve'', label = ''Improve writing'',
       action = handler ''Improving text...'' ''improve'' None\<rparr>,
      \<lparr>key = ''formal'', label = ''Make text formal'',
       action = handler ''Changing style...'' ''style'' (Some ''formal'')\<rparr>,
      \<lparr>key = ''complete'', label = ''Complete text'',
       action = handler ''Completing text...'' ''complete'' None\<rparr>]"

section \<open>Sequences of Manager calls\<close>

text \<open>
  A client of the Manager calls its three methods in any order and catches what they
  throw. A method that returns nothing returns \<open>undefined\<close>.
\<close>

datatype managerCall =
    Initialize
  | SetProvider string string
  | ExecuteAICommand string string "string option"

fun step :: "managerCall \<Rightarrow> AIManager \<times> world \<Rightarrow> (error + jsval) \<times> AIManager \<times> world" where
  "step Initialize (m, w) =
     (case initialize m w of
        (Inl e, m1) \<Rightarrow> (Inl e, m1, w)
      | (Inr u, m1) \<Rightarrow> (Inr Undefined, m1, w))"
| "step (SetProvider providerName k) (m, w) =
     (case setProvider providerName k m of
        (Inl e, m1) \<Rightarrow> (Inl e, m1, w)
      | (Inr u, m1) \<Rightarrow> (Inr Undefined, m1, w))"
| "step (ExecuteAICommand command text style) (m, w) =
     (case executeAICommand command text style m w of
        (r, w1) \<Rightarrow> (r, m, w1))"

fun runCalls :: "managerCall list \<Rightarrow> AIManager \<times> world \<Rightarrow> AIManager \<times> world" where
  "runCalls [] s = s"
| "runCalls (c # cs) s = runCalls cs (snd (step c s))"

section \<open>Example inputs\<close>

text \<open>
  A vendor that settles every request the same way, a document with one block and the
  selection of the specification's scenario.
\<close>

definition openaiBody :: "string \<Rightarrow> jsval" where
  "openaiBody completion =
     Object [(''choices'',
              Array [Object [(''index'', Number ''0''),
                             (''message'', Object [(''role'', String ''assistant''),
                                                   (''content'', String completion)])]])]"

definition claudeBody :: "string \<Rightarrow> jsval" where
  "claudeBody completion =
     Object [(''role'', String ''assistant''),
             (''content'', Array [Object [(''type'', String ''text''),
                                          (''text'', String completion)]])]"

definition success :: "jsval \<Rightarrow> response" where
  "success data = \<lparr>ok = True, statusText = ''OK'', json = Inr data\<rparr>"

definition unauthorized :: response where
  "unauthorized = \<lparr>ok = False, statusText = ''Unauthorized'', json = Inr (Object [])\<rparr>"

definition exampleWorld :: "error + response \<Rightarrow> world" where
  "exampleWorld settled =
     \<lparr>vendor = (\<lambda>earlier req. settled),
      typeErrorText = (\<lambda>k. ''Cannot read properties of undefined (reading '' @ k @ '')''),
      requests = [], console = [],
      aiConfig = Some \<lparr>AIConfig.provider = ''openai'', apiKey = ''sk-test''\<rparr>,
      selectedText = Some ''The quick brown fox jumps.'',
      currentBlock = Some \<lparr>uuid = ''b1''\<rparr>,
      inserted = [], shown = []\<rparr>"

section \<open>Strings: what the two library functions do\<close>

lemma toLowerChar_eq_iff:
  assumes "97 \<le> (of_char l :: nat)" and "(of_char l :: nat) \<le> 122"
  shows "toLowerChar c = l \<longleftrightarrow> c = l \<or> c = char_of ((of_char l :: nat) - 32)"
proof -
  define n where "n = (of_char c :: nat)"
  define k where "k = (of_char l :: nat)"
  have n: "n < 256" and c: "c = char_of n" by (simp_all add: n_def)
  have l: "l = char_of k" by (simp add: k_def)
  have k: "97 \<le> k" "k \<le> 122" using assms by (simp_all add: k_def)
  have eq: "\<And>a b :: nat. a < 256 \<Longrightarrow> b < 256 \<Longrightarrow> (char_of a = (char_of b :: char)) = (a = b)"
    by (simp add: char_of_eq_iff take_bit_nat_eq_self)
  show ?thesis
    unfolding toLowerChar_def Let_def n_def [symmetric] k_def [symmetric]
    unfolding c l
    using n k by (auto simp: eq)
qed

lemma lower_o: "toLowerChar c = CHR ''o'' \<longleftrightarrow> c \<in> {CHR ''o'', CHR ''O''}"
  by (simp add: toLowerChar_eq_iff char_of_def bit_iff_odd)

lemma lower_p: "toLowerChar c = CHR ''p'' \<longleftrightarrow> c \<in> {CHR ''p'', CHR ''P''}"
  by (simp add: toLowerChar_eq_iff char_of_def bit_iff_odd)

lemma lower_e: "toLowerChar c = CHR ''e'' \<longleftrightarrow> c \<in> {CHR ''e'', CHR ''E''}"
  by (simp add: toLowerChar_eq_iff char_of_def bit_iff_odd)

lemma lower_n: "toLowerChar c = CHR ''n'' \<longleftrightarrow> c \<in> {CHR ''n'', CHR ''N''}"
  by (simp add: toLowerChar_eq_iff char_of_def bit_iff_odd)

lemma lower_a: "toLowerChar c = CHR ''a'' \<longleftrightarrow> c \<in> {CHR ''a'', CHR ''A''}"
  by (simp add: toLowerChar_eq_iff char_of_def bit_iff_odd)

lemma lower_i: "toLowerChar c = CHR ''i'' \<longleftrightarrow> c \<in> {CHR ''i'', CHR ''I''}"
  by (simp add: toLowerChar_eq_iff char_of_def bit_iff_odd)

lemma lower_c: "toLowerChar c = CHR ''c'' \<longleftrightarrow> c \<in> {CHR ''c'', CHR ''C''}"
  by (simp add: toLowerChar_eq_iff char_of_def bit_iff_odd)

lemma lower_l: "toLowerChar c = CHR ''l'' \<longleftrightarrow> c \<in> {CHR ''l'', CHR ''L''}"
  by (simp add: toLowerChar_eq_iff char_of_def bit_iff_odd)

lemma lower_u: "toLowerChar c = CHR ''u'' \<longleftrightarrow> c \<in> {CHR ''u'', CHR ''U''}"
  by (simp add: toLowerChar_eq_iff char_of_def bit_iff_odd)

lemma lower_d: "toLowerChar c = CHR ''d'' \<longleftrightarrow> c \<in> {CHR ''d'', CHR ''D''}"
  by (simp add: toLowerChar_eq_iff char_of_def bit_iff_odd)

lemma map_eq_six:
  "map g s = [x1, x2, x3, x4, x5, x6] \<longleftrightarrow>
     (\<exists>a b c d e f. s = [a, b, c, d, e, f] \<and> g a = x1 \<and> g b = x2 \<and> g c = x3 \<and> g d = x4 \<and>
        g e = x5 \<and> g f = x6)"
  by (auto simp: map_eq_Cons_conv)

text \<open>
  The names that \<open>setProvider\<close> takes for OpenAI are the 64 spellings of \<open>openai\<close> in upper
  and lower case and nothing else; likewise for \<open>claude\<close>.
\<close>

lemma toLowerCase_openai_iff:
  "toLowerCase s = ''openai'' \<longleftrightarrow>
     (\<exists>a b c d e f. s = [a, b, c, d, e, f] \<and>
        a \<in> {CHR ''o'', CHR ''O''} \<and> b \<in> {CHR ''p'', CHR ''P''} \<and> c \<in> {CHR ''e'', CHR ''E''} \<and>
        d \<in> {CHR ''n'', CHR ''N''} \<and> e \<in> {CHR ''a'', CHR ''A''} \<and> f \<in> {CHR ''i'', CHR ''I''})"
  unfolding toLowerCase_def map_eq_six lower_o lower_p lower_e lower_n lower_a lower_i ..

lemma toLowerCase_claude_iff:
  "toLowerCase s = ''claude'' \<longleftrightarrow>
     (\<exists>a b c d e f. s = [a, b, c, d, e, f] \<and>
        a \<in> {CHR ''c'', CHR ''C''} \<and> b \<in> {CHR ''l'', CHR ''L''} \<and> c \<in> {CHR ''a'', CHR ''A''} \<and>
        d \<in> {CHR ''u'', CHR ''U''} \<and> e \<in> {CHR ''d'', CHR ''D''} \<and> f \<in> {CHR ''e'', CHR ''E''})"
  unfolding toLowerCase_def map_eq_six lower_c lower_l lower_a lower_u lower_d lower_e ..

text \<open>
  \<open>trim\<close> cuts white space off both ends and nothing else: what it returns neither
  starts nor ends with white space.
\<close>

lemma trim_decomposition:
  "\<exists>a b. s = a @ trim s @ b \<and> list_all isWhiteSpace a \<and> list_all isWhiteSpace b"
proof -
  let ?t = "dropWhile isWhiteSpace s"
  have 1: "s = takeWhile isWhiteSpace s @ ?t" by simp
  have 2: "rev ?t = takeWhile isWhiteSpace (rev ?t) @ dropWhile isWhiteSpace (rev ?t)" by simp
  have 3: "?t = rev (dropWhile isWhiteSpace (rev ?t)) @ rev (takeWhile isWhiteSpace (rev ?t))"
    using arg_cong [OF 2, of rev] by (simp only: rev_append rev_rev_ident)
  have "s = takeWhile isWhiteSpace s @ trim s @ rev (takeWhile isWhiteSpace (rev ?t))"
    using 1 3 by (simp add: trim_def trimStart_def trimEnd_def)
  moreover have "list_all isWhiteSpace (takeWhile isWhiteSpace s)"
    by (simp add: list_all_iff) (meson set_takeWhileD)
  moreover have "list_all isWhiteSpace (rev (takeWhile isWhiteSpace (rev ?t)))"
    by (simp add: list_all_iff) (meson set_takeWhileD)
  ultimately show ?thesis by blast
qed

lemma trim_ends:
  "trim s = [] \<or> (\<not> isWhiteSpace (hd (trim s)) \<and> \<not> isWhiteSpace (last (trim s)))"
proof (cases "trim s = []")
  case True
  then show ?thesis by simp
next
  case False
  let ?t = "dropWhile isWhiteSpace s"
  let ?u = "dropWhile isWhiteSpace (rev ?t)"
  have u: "?u \<noteq> []" using False by (simp add: trim_def trimStart_def trimEnd_def)
  have t: "?t \<noteq> []"
  proof
    assume "?t = []"
    then have "?u = []" by (simp only: rev.simps(1) dropWhile.simps(1))
    then show False using u by simp
  qed
  have l: "\<not> isWhiteSpace (hd ?u)" using u hd_dropWhile by blast
  have h0: "\<not> isWhiteSpace (hd ?t)" using t hd_dropWhile by blast
  have "last (trim s) = hd ?u" using u by (simp add: trim_def trimStart_def trimEnd_def last_rev)
  moreover have "hd (trim s) = hd ?t"
  proof -
    obtain a where a: "rev ?t = a @ ?u" by (metis takeWhile_dropWhile_id)
    have "?t = rev ?u @ rev a" using arg_cong [OF a, of rev] by (simp only: rev_append rev_rev_ident)
    then have "hd ?t = hd (rev ?u)" using u by (metis hd_append2 rev_is_Nil_conv)
    then show ?thesis by (simp add: trim_def trimStart_def trimEnd_def)
  qed
  ultimately show ?thesis using l h0 by simp
qed

section \<open>What a call writes\<close>

lemma makeRequest_requests:
  "requests (snd (makeRequest p prompt w)) = requests w @ [buildRequest p prompt]"
  by (simp add: makeRequest_def fetch_def consoleError_def split: sum.splits)

text \<open>Each of the four operations of a Provider sends exactly one request.\<close>

lemma operation_sends_one_request:
  "length (requests (snd (summarizeText p t w))) = Suc (length (requests w))"
  "length (requests (snd (improveWriting p t w))) = Suc (length (requests w))"
  "length (requests (snd (changeWritingStyle p t style w))) = Suc (length (requests w))"
  "length (requests (snd (completeText p t w))) = Suc (length (requests w))"
  by (simp_all add: summarizeText_def improveWriting_def changeWritingStyle_def completeText_def
      makeRequest_requests)

lemma makeRequest_not_ok:
  assumes "vendor w (requests w) (buildRequest p prompt) = Inr resp" and "\<not> ok resp"
  shows "makeRequest p prompt w =
           (Inl (Error (''API request failed: '' @ statusText resp)),
            consoleError (errorLabel p) (Error (''API request failed: '' @ statusText resp))
              (w\<lparr>requests := requests w @ [buildRequest p prompt]\<rparr>))"
  using assms by (simp add: makeRequest_def fetch_def readResponse_def)

lemma makeRequest_frame:
  "inserted (snd (makeRequest p prompt w)) = inserted w \<and>
   shown (snd (makeRequest p prompt w)) = shown w \<and>
   currentBlock (snd (makeRequest p prompt w)) = currentBlock w"
  by (simp add: makeRequest_def fetch_def consoleError_def split: sum.splits)

lemma dispatch_frame:
  "inserted (snd (dispatch p command t style w)) = inserted w \<and>
   shown (snd (dispatch p command t style w)) = shown w \<and>
   currentBlock (snd (dispatch p command t style w)) = currentBlock w"
  by (simp add: dispatch_def summarizeText_def improveWriting_def changeWritingStyle_def
      completeText_def makeRequest_frame)

lemma executeAICommand_frame:
  "inserted (snd (executeAICommand command t style m w)) = inserted w \<and>
   shown (snd (executeAICommand command t style m w)) = shown w \<and>
   currentBlock (snd (executeAICommand command t style m w)) = currentBlock w"
proof (cases "provider m")
  case None
  then show ?thesis by (simp add: executeAICommand_def)
next
  case (Some p)
  obtain r w1 where d: "dispatch p command t style w = (r, w1)"
    by (cases "dispatch p command t style w")
  have f: "inserted w1 = inserted w \<and> shown w1 = shown w \<and> currentBlock w1 = currentBlock w"
    using dispatch_frame [of p command t style w] d by simp
  show ?thesis
    using Some d f by (cases r) (simp_all add: executeAICommand_def consoleError_def)
qed

text \<open>The registered actions are the one handler at four sets of arguments.\<close>

lemma commands_are_handlers:
  "c \<in> set commands \<Longrightarrow> \<exists>progress command style. action c = handler progress command style"
  by (auto simp: commands_def) blast+

section \<open>The Manager never loses its Provider\<close>

lemma setProvider_keeps: "provider m \<noteq> None \<Longrightarrow> provider (snd (setProvider n k m)) \<noteq> None"
  by (simp add: setProvider_def)

lemma initialize_keeps: "provider m \<noteq> None \<Longrightarrow> provider (snd (initialize m w)) \<noteq> None"
  by (simp add: initialize_def setProvider_def split: option.splits)

lemma step_keeps: "provider m \<noteq> None \<Longrightarrow> provider (fst (snd (step c (m, w)))) \<noteq> None"
proof (cases c)
  case Initialize
  assume "provider m \<noteq> None"
  then show ?thesis using Initialize initialize_keeps [of m w]
    by (cases "initialize m w") (auto split: sum.splits)
next
  case (SetProvider n k)
  assume "provider m \<noteq> None"
  then show ?thesis using SetProvider setProvider_keeps [of m n k]
    by (cases "setProvider n k m") (auto split: sum.splits)
next
  case (ExecuteAICommand cmd t style)
  assume "provider m \<noteq> None"
  then show ?thesis using ExecuteAICommand by (simp split: prod.splits)
qed

lemma runCalls_keeps:
  "provider (fst s) \<noteq> None \<Longrightarrow> provider (fst (runCalls cs s)) \<noteq> None"
proof (induction cs arbitrary: s)
  case Nil
  then show ?case by simp
next
  case (Cons c cs)
  obtain m w where s: "s = (m, w)" by (cases s)
  have "provider (fst (snd (step c s))) \<noteq> None"
    using Cons.prems s step_keeps [of m c w] by simp
  then show ?case using Cons.IH by simp
qed

lemma step_configures:
  assumes "provider m = None" and "provider (fst (snd (step c (m, w)))) \<noteq> None"
  shows "fst (step c (m, w)) = Inr Undefined \<and> (c = Initialize \<or> (\<exists>n k. c = SetProvider n k))"
proof (cases c)
  case Initialize
  then show ?thesis using assms
    by (auto simp: initialize_def setProvider_def split: option.splits if_splits)
next
  case (SetProvider n k)
  then show ?thesis using assms by (auto simp: setProvider_def split: if_splits)
next
  case (ExecuteAICommand cmd t style)
  then show ?thesis using assms by (simp split: prod.splits)
qed

section \<open>Properties of the Manager\<close>

text \<open>
  C1. For every command key and every text, \<open>executeAICommand\<close> on a Manager that has no
  Provider fails with the error "AI provider not configured. Please set up your API key
  in settings." and leaves the world as it was: no request is sent, nothing is logged,
  no operation of a Provider runs. The call never returns a value.
\<close>

theorem executeAICommand_without_provider:
  "provider m = None \<Longrightarrow>
     executeAICommand command text style m w =
       (Inl (Error ''AI provider not configured. Please set up your API key in settings.''), w)"
  by (simp add: executeAICommand_def)

theorem executeAICommand_without_provider_witness:
  "provider aiManager = None \<and>
   executeAICommand ''summarize'' ''The quick brown fox jumps.'' None aiManager
       (exampleWorld (Inr (success (openaiBody ''A fox jumps.'')))) =
     (Inl (Error ''AI provider not configured. Please set up your API key in settings.''),
      exampleWorld (Inr (success (openaiBody ''A fox jumps.''))))"
proof -
  have h: "provider aiManager = None" by (simp add: aiManager_def)
  show ?thesis using h executeAICommand_without_provider [OF h] by simp
qed

text \<open>
  C3. A name that is \<open>openai\<close> or \<open>claude\<close> in any letter casing makes \<open>setProvider\<close>
  succeed and install a Provider whose \<open>name\<close> is "OpenAI", respectively "Claude". Any
  other name makes it fail with "Unsupported AI provider: " followed by the name as given,
  and the Manager, with the Provider it had, is as before the call.
\<close>

theorem setProvider_by_name:
  "(toLowerCase providerName = ''openai'' \<longrightarrow>
      fst (setProvider providerName k m) = Inr () \<and>
      (\<exists>p. provider (snd (setProvider providerName k m)) = Some p \<and> name p = ''OpenAI'')) \<and>
   (toLowerCase providerName = ''claude'' \<longrightarrow>
      fst (setProvider providerName k m) = Inr () \<and>
      (\<exists>p. provider (snd (setProvider providerName k m)) = Some p \<and> name p = ''Claude'')) \<and>
   (toLowerCase providerName \<notin> {''openai'', ''claude''} \<longrightarrow>
      setProvider providerName k m =
        (Inl (Error (''Unsupported AI provider: '' @ providerName)), m))"
  by (simp add: setProvider_def)

theorem setProvider_by_name_witness:
  "toLowerCase ''OpenAI'' = ''openai'' \<and>
   fst (setProvider ''OpenAI'' ''sk-test'' aiManager) = Inr () \<and>
   (\<exists>p. provider (snd (setProvider ''OpenAI'' ''sk-test'' aiManager)) = Some p \<and>
        name p = ''OpenAI'') \<and>
   toLowerCase ''CLAUDE'' = ''claude'' \<and>
   fst (setProvider ''CLAUDE'' ''sk-test'' aiManager) = Inr () \<and>
   (\<exists>p. provider (snd (setProvider ''CLAUDE'' ''sk-test'' aiManager)) = Some p \<and>
        name p = ''Claude'') \<and>
   toLowerCase ''gemini'' \<notin> {''openai'', ''claude''} \<and>
   setProvider ''gemini'' ''sk-test'' \<lparr>provider = Some (ClaudeProvider ''old''), config = None\<rparr> =
     (Inl (Error ''Unsupported AI provider: gemini''),
      \<lparr>provider = Some (ClaudeProvider ''old''), config = None\<rparr>)"
proof -
  have h1: "toLowerCase ''OpenAI'' = ''openai''"
    by code_simp
  have h2: "toLowerCase ''CLAUDE'' = ''claude''"
    by code_simp
  have h3: "toLowerCase ''gemini'' \<notin> {''openai'', ''claude''}"
    by code_simp
  show ?thesis
    using h1 h2 h3
      setProvider_by_name [of "''OpenAI''" "''sk-test''" aiManager]
      setProvider_by_name [of "''CLAUDE''" "''sk-test''" aiManager]
      setProvider_by_name [of "''gemini''" "''sk-test''"
        "\<lparr>provider = Some (ClaudeProvider ''old''), config = None\<rparr>"]
    by simp
qed

text \<open>
  C4. With a Provider configured, a command key other than \<open>summarize\<close>, \<open>improve\<close>,
  \<open>style\<close> and \<open>complete\<close> makes \<open>executeAICommand\<close> fail with "Unknown command: "
  followed by the key. The call writes one line to the console and nothing else; the log
  of requests is as before, so none of the four operations of the Provider has run (each
  of them sends a request, \<open>operation_sends_one_request\<close>).
\<close>

theorem executeAICommand_unknown_command:
  assumes "provider m = Some p"
    and "command \<notin> {''summarize'', ''improve'', ''style'', ''complete''}"
  shows "executeAICommand command text style m w =
           (Inl (Error (''Unknown command: '' @ command)),
            consoleError ''AI command execution error:'' (Error (''Unknown command: '' @ command)) w)
         \<and> requests (snd (executeAICommand command text style m w)) = requests w"
  using assms by (simp add: executeAICommand_def dispatch_def consoleError_def)

theorem executeAICommand_unknown_command_witness:
  "provider \<lparr>provider = Some (OpenAIProvider ''sk-test''), config = None\<rparr>
     = Some (OpenAIProvider ''sk-test'') \<and>
   ''translate'' \<notin> {''summarize'', ''improve'', ''style'', ''complete''} \<and>
   fst (executeAICommand ''translate'' ''The quick brown fox jumps.'' None
          \<lparr>provider = Some (OpenAIProvider ''sk-test''), config = None\<rparr>
          (exampleWorld (Inr (success (openaiBody ''A fox jumps.'')))))
     = Inl (Error ''Unknown command: translate'') \<and>
   requests (snd (executeAICommand ''translate'' ''The quick brown fox jumps.'' None
          \<lparr>provider = Some (OpenAIProvider ''sk-test''), config = None\<rparr>
          (exampleWorld (Inr (success (openaiBody ''A fox jumps.''))))))
     = []"
proof -
  have h1: "provider \<lparr>provider = Some (OpenAIProvider ''sk-test''), config = None\<rparr>
              = Some (OpenAIProvider ''sk-test'')" by simp
  have h2: "''translate'' \<notin> {''summarize'', ''improve'', ''style'', ''complete''}" by simp
  show ?thesis
    using h1 h2 executeAICommand_unknown_command [OF h1 h2,
        of "''The quick brown fox jumps.''" None
           "exampleWorld (Inr (success (openaiBody ''A fox jumps.'')))"]
    by (simp add: exampleWorld_def consoleError_def)
qed

text \<open>
  C5. For every text, \<open>executeAICommand\<close> with the key \<open>style\<close> and no style argument is
  the \<open>changeWritingStyle\<close> operation of the active Provider called with the style
  "professional": it sends that operation's request and returns what it returns, an error
  being logged on the way out.
\<close>

theorem style_defaults_to_professional:
  assumes "provider m = Some p"
  shows "executeAICommand ''style'' text None m w =
           (case changeWritingStyle p text ''professional'' w of
              (Inl e, w1) \<Rightarrow> (Inl e, consoleError ''AI command execution error:'' e w1)
            | (Inr v, w1) \<Rightarrow> (Inr v, w1))"
  using assms by (simp add: executeAICommand_def dispatch_def styleOrDefault_def)

theorem style_defaults_to_professional_witness:
  "provider \<lparr>provider = Some (OpenAIProvider ''sk-test''), config = None\<rparr>
     = Some (OpenAIProvider ''sk-test'') \<and>
   executeAICommand ''style'' ''hi'' None
       \<lparr>provider = Some (OpenAIProvider ''sk-test''), config = None\<rparr>
       (exampleWorld (Inr (success (openaiBody ''Good day.'')))) =
     (case changeWritingStyle (OpenAIProvider ''sk-test'') ''hi'' ''professional''
             (exampleWorld (Inr (success (openaiBody ''Good day.'')))) of
        (Inl e, w1) \<Rightarrow> (Inl e, consoleError ''AI command execution error:'' e w1)
      | (Inr v, w1) \<Rightarrow> (Inr v, w1)) \<and>
   map body (requests (snd (executeAICommand ''style'' ''hi'' None
       \<lparr>provider = Some (OpenAIProvider ''sk-test''), config = None\<rparr>
       (exampleWorld (Inr (success (openaiBody ''Good day.''))))))) =
     [Object [(''model'', String ''gpt-3.5-turbo''),
              (''messages'',
               Array [Object [(''role'', String ''user''),
                              (''content'',
                               String (''Please rewrite the following text in a professional style:''
                                       @ [CHR 0x0A, CHR 0x0A] @ ''hi''))]]),
              (''temperature'', Number ''0.7'')]]"
proof -
  have h: "provider \<lparr>provider = Some (OpenAIProvider ''sk-test''), config = None\<rparr>
             = Some (OpenAIProvider ''sk-test'')" by simp
  have r: "map body (requests (snd
             (case changeWritingStyle (OpenAIProvider ''sk-test'') ''hi'' ''professional''
                     (exampleWorld (Inr (success (openaiBody ''Good day.'')))) of
                (Inl e, w1) \<Rightarrow> (Inl e, consoleError ''AI command execution error:'' e w1)
              | (Inr v, w1) \<Rightarrow> (Inr v, w1)))) =
           [Object [(''model'', String ''gpt-3.5-turbo''),
              (''messages'',
               Array [Object [(''role'', String ''user''),
                              (''content'',
                               String (''Please rewrite the following text in a professional style:''
                                       @ [CHR 0x0A, CHR 0x0A] @ ''hi''))]]),
              (''temperature'', Number ''0.7'')]]"
    by (simp add: changeWritingStyle_def makeRequest_def fetch_def readResponse_def
        exampleWorld_def success_def openaiBody_def)
  show ?thesis
    using h r style_defaults_to_professional [OF h, of "''hi''"
        "exampleWorld (Inr (success (openaiBody ''Good day.'')))"]
    by simp
qed

text \<open>
  C8. Whatever sequence of calls of \<open>initialize\<close>, \<open>setProvider\<close> and \<open>executeAICommand\<close>
  is made, with whatever arguments and whether the calls fail or not, a Manager that has
  a Provider has one afterwards. And a single call that takes a Manager without a
  Provider to one with a Provider is a call of \<open>initialize\<close> or of \<open>setProvider\<close> that
  returned without an error.
\<close>

theorem manager_stays_configured:
  "(provider m \<noteq> None \<longrightarrow> provider (fst (runCalls cs (m, w))) \<noteq> None) \<and>
   (provider m = None \<and> provider (fst (snd (step c (m, w)))) \<noteq> None \<longrightarrow>
      fst (step c (m, w)) = Inr Undefined \<and> (c = Initialize \<or> (\<exists>n k. c = SetProvider n k)))"
  using runCalls_keeps [of "(m, w)" cs] step_configures [of m c w] by simp

theorem manager_stays_configured_witness:
  "provider \<lparr>provider = Some (OpenAIProvider ''sk-test''), config = None\<rparr> \<noteq> None \<and>
   provider (fst (runCalls
       [SetProvider ''gemini'' ''k'', ExecuteAICommand ''translate'' ''hi'' None, Initialize,
        ExecuteAICommand ''summarize'' ''hi'' None, SetProvider ''claude'' ''k'']
       (\<lparr>provider = Some (OpenAIProvider ''sk-test''), config = None\<rparr>,
        exampleWorld (Inr unauthorized)))) \<noteq> None \<and>
   provider aiManager = None \<and>
   provider (fst (snd (step Initialize (aiManager, exampleWorld (Inr unauthorized))))) \<noteq> None \<and>
   fst (step Initialize (aiManager, exampleWorld (Inr unauthorized))) = Inr Undefined"
proof -
  have h1: "provider \<lparr>provider = Some (OpenAIProvider ''sk-test''), config = None\<rparr> \<noteq> None"
    by simp
  have h2: "provider aiManager = None" by (simp add: aiManager_def)
  have h3: "provider (fst (snd (step Initialize (aiManager, exampleWorld (Inr unauthorized)))))
              \<noteq> None"
    by (simp add: initialize_def setProvider_def exampleWorld_def aiManager_def
        toLowerCase_def toLowerChar_def char_of_def bit_iff_odd)
  show ?thesis
    using h1 h2 h3
      manager_stays_configured [of "\<lparr>provider = Some (OpenAIProvider ''sk-test''), config = None\<rparr>"
        "[SetProvider ''gemini'' ''k'', ExecuteAICommand ''translate'' ''hi'' None, Initialize,
          ExecuteAICommand ''summarize'' ''hi'' None, SetProvider ''claude'' ''k'']"
        "exampleWorld (Inr unauthorized)"]
      manager_stays_configured [of aiManager Nil "exampleWorld (Inr unauthorized)" Initialize]
    by simp
qed

section \<open>Properties of the Provider clients\<close>

text \<open>
  A well-formed response of the OpenAI endpoint holds the completion at
  \<open>choices[0].message.content\<close>; the client returns it trimmed.
\<close>

lemma openai_returns_trimmed:
  assumes "vendor w (requests w) (buildRequest (OpenAIProvider k) prompt) = Inr resp"
    and "ok resp"
    and "json resp = Inr (Object kvs)"
    and "map_of kvs ''choices'' = Some (Array (Object cvs # others))"
    and "map_of cvs ''message'' = Some (Object mvs)"
    and "map_of mvs ''content'' = Some (String completion)"
  shows "fst (makeRequest (OpenAIProvider k) prompt w) = Inr (String (trim completion))"
  using assms by (simp add: makeRequest_def fetch_def readResponse_def)

text \<open>
  A well-formed response of the Claude endpoint holds the completion at
  \<open>content[0].text\<close>; the client returns it as it is.
\<close>

lemma claude_returns_text_as_is:
  assumes "vendor w (requests w) (buildRequest (ClaudeProvider k) prompt) = Inr resp"
    and "ok resp"
    and "json resp = Inr (Object kvs)"
    and "map_of kvs ''content'' = Some (Array (Object pvs # others))"
    and "map_of pvs ''text'' = Some (String completion)"
  shows "fst (makeRequest (ClaudeProvider k) prompt w) = Inr (String completion)"
  using assms by (simp add: makeRequest_def fetch_def readResponse_def)

text \<open>
  C2. The claim is that the operation of either client returns the completion of a
  well-formed response with the white space at its ends removed. The OpenAI client does
  (\<open>openai_returns_trimmed\<close>). The Claude client does not trim: on a response whose
  completion is " A fox jumps. " its \<open>summarizeText\<close> returns " A fox jumps. ", where the
  trimmed text is "A fox jumps.", which is what the OpenAI client returns for the same
  completion.
\<close>

theorem claude_returns_untrimmed:
  "fst (summarizeText (ClaudeProvider ''sk-test'') ''The quick brown fox jumps.''
          (exampleWorld (Inr (success (claudeBody '' A fox jumps. ''))))) =
     Inr (String '' A fox jumps. '') \<and>
   trim '' A fox jumps. '' = ''A fox jumps.'' \<and>
   fst (summarizeText (OpenAIProvider ''sk-test'') ''The quick brown fox jumps.''
          (exampleWorld (Inr (success (openaiBody '' A fox jumps. ''))))) =
     Inr (String ''A fox jumps.'')"
  by (simp add: summarizeText_def makeRequest_def fetch_def readResponse_def exampleWorld_def
      success_def claudeBody_def openaiBody_def trim_def trimStart_def trimEnd_def
      isWhiteSpace_def)

text \<open>
  C7. For either client, when the endpoint answers the request that an operation sends
  with a response that is not \<open>ok\<close>, the operation fails with the error \<open>Error\<close> whose message
  is "API request failed: " followed by the status text of that response. This holds for
  each of the four operations, \<open>summarizeText\<close>, \<open>improveWriting\<close>, \<open>changeWritingStyle\<close>
  and \<open>completeText\<close>, and the endpoint may answer other requests in any way.
\<close>

theorem operations_non_success_status:
  "(vendor w (requests w)
        (buildRequest p (''Please provide a concise summary of the following text:'' @ [CHR 0x0A, CHR 0x0A] @ t)) = Inr resp \<and>
      \<not> ok resp \<longrightarrow>
      fst (summarizeText p t w) =
        Inl (Error (''API request failed: '' @ statusText resp))) \<and>
   (vendor w (requests w)
        (buildRequest p (''Please improve the following text while maintaining its core message:'' @ [CHR 0x0A, CHR 0x0A] @ t)) = Inr resp \<and>
      \<not> ok resp \<longrightarrow>
      fst (improveWriting p t w) =
        Inl (Error (''API request failed: '' @ statusText resp))) \<and>
   (vendor w (requests w)
        (buildRequest p (''Please rewrite the following text in a '' @ style @ '' style:'' @ [CHR 0x0A, CHR 0x0A] @ t)) = Inr resp \<and>
      \<not> ok resp \<longrightarrow>
      fst (changeWritingStyle p t style w) =
        Inl (Error (''API request failed: '' @ statusText resp))) \<and>
   (vendor w (requests w)
        (buildRequest p (''Please complete the following text naturally:'' @ [CHR 0x0A, CHR 0x0A] @ t)) = Inr resp \<and>
      \<not> ok resp \<longrightarrow>
      fst (completeText p t w) =
        Inl (Error (''API request failed: '' @ statusText resp)))"
  by (simp add: summarizeText_def improveWriting_def changeWritingStyle_def completeText_def
      makeRequest_not_ok)

theorem operations_non_success_status_witness:
  "vendor (exampleWorld (Inr unauthorized)) (requests (exampleWorld (Inr unauthorized)))
       (buildRequest (ClaudeProvider ''sk-test'') (''Please provide a concise summary of the following text:'' @ [CHR 0x0A, CHR 0x0A] @ ''hi'')) = Inr unauthorized \<and>
   vendor (exampleWorld (Inr unauthorized)) (requests (exampleWorld (Inr unauthorized)))
       (buildRequest (ClaudeProvider ''sk-test'') (''Please improve the following text while maintaining its core message:'' @ [CHR 0x0A, CHR 0x0A] @ ''hi'')) = Inr unauthorized \<and>
   vendor (exampleWorld (Inr unauthorized)) (requests (exampleWorld (Inr unauthorized)))
       (buildRequest (ClaudeProvider ''sk-test'') (''Please rewrite the following text in a '' @ ''formal'' @ '' style:'' @ [CHR 0x0A, CHR 0x0A] @ ''hi'')) = Inr unauthorized \<and>
   vendor (exampleWorld (Inr unauthorized)) (requests (exampleWorld (Inr unauthorized)))
       (buildRequest (ClaudeProvider ''sk-test'') (''Please complete the following text naturally:'' @ [CHR 0x0A, CHR 0x0A] @ ''hi'')) = Inr unauthorized \<and>
   \<not> ok unauthorized \<and>
   fst (summarizeText (ClaudeProvider ''sk-test'') ''hi'' (exampleWorld (Inr unauthorized))) =
     Inl (Error ''API request failed: Unauthorized'') \<and>
   fst (improveWriting (ClaudeProvider ''sk-test'') ''hi'' (exampleWorld (Inr unauthorized))) =
     Inl (Error ''API request failed: Unauthorized'') \<and>
   fst (changeWritingStyle (ClaudeProvider ''sk-test'') ''hi'' ''formal'' (exampleWorld (Inr unauthorized))) =
     Inl (Error ''API request failed: Unauthorized'') \<and>
   fst (completeText (ClaudeProvider ''sk-test'') ''hi'' (exampleWorld (Inr unauthorized))) =
     Inl (Error ''API request failed: Unauthorized'')"
proof -
  have g1: "vendor (exampleWorld (Inr unauthorized)) (requests (exampleWorld (Inr unauthorized)))
          (buildRequest (ClaudeProvider ''sk-test'') (''Please provide a concise summary of the following text:'' @ [CHR 0x0A, CHR 0x0A] @ ''hi'')) = Inr unauthorized"
    by (simp add: exampleWorld_def)
  have g2: "vendor (exampleWorld (Inr unauthorized)) (requests (exampleWorld (Inr unauthorized)))
          (buildRequest (ClaudeProvider ''sk-test'') (''Please improve the following text while maintaining its core message:'' @ [CHR 0x0A, CHR 0x0A] @ ''hi'')) = Inr unauthorized"
    by (simp add: exampleWorld_def)
  have g3: "vendor (exampleWorld (Inr unauthorized)) (requests (exampleWorld (Inr unauthorized)))
          (buildRequest (ClaudeProvider ''sk-test'') (''Please rewrite the following text in a '' @ ''formal'' @ '' style:'' @ [CHR 0x0A, CHR 0x0A] @ ''hi'')) = Inr unauthorized"
    by (simp add: exampleWorld_def)
  have g4: "vendor (exampleWorld (Inr unauthorized)) (requests (exampleWorld (Inr unauthorized)))
          (buildRequest (ClaudeProvider ''sk-test'') (''Please complete the following text naturally:'' @ [CHR 0x0A, CHR 0x0A] @ ''hi'')) = Inr unauthorized"
    by (simp add: exampleWorld_def)
  have k: "\<not> ok unauthorized" by (simp add: unauthorized_def)
  have s: "statusText unauthorized = ''Unauthorized''" by (simp add: unauthorized_def)
  show ?thesis
    using g1 g2 g3 g4 k s
      operations_non_success_status [of "exampleWorld (Inr unauthorized)" "ClaudeProvider ''sk-test''" "''hi''" unauthorized
        "''formal''"]
    by simp
qed

section \<open>Properties of the command layer\<close>

text \<open>
  The scenario of the specification: the selection is "The quick brown fox jumps.", the
  command is \<open>summarize\<close>, the vendor answers "A fox jumps."; the handler inserts that
  text after the current block and shows the progress message only.
\<close>

lemma fox_scenario:
  "inserted (handler ''Summarizing text...'' ''summarize'' None
               \<lparr>provider = Some (OpenAIProvider ''sk-test''), config = None\<rparr>
               (exampleWorld (Inr (success (openaiBody ''A fox jumps.''))))) =
     [(''b1'', String ''A fox jumps.'', True)] \<and>
   shown (handler ''Summarizing text...'' ''summarize'' None
               \<lparr>provider = Some (OpenAIProvider ''sk-test''), config = None\<rparr>
               (exampleWorld (Inr (success (openaiBody ''A fox jumps.''))))) =
     [(''Summarizing text...'', ''info'')]"
  by (simp add: handler_def tryBody_def getSelectedText_def executeAICommand_def dispatch_def
      summarizeText_def makeRequest_def fetch_def readResponse_def showMsg_def insertBlock_def
      exampleWorld_def success_def openaiBody_def trim_def trimStart_def trimEnd_def
      isWhiteSpace_def)

text \<open>
  C6. For every handler (every progress text, command key and style), when the selection
  is missing or the call of the Manager fails, be it for want of a Provider or because
  the vendor or the network failed, with the error \<open>e\<close>: the log of block insertions is as
  before, and the handler returns normally after showing the message of \<open>e\<close> at level
  "error", as the last message and after at most the progress message.
\<close>

theorem handler_failure_leaves_document:
  assumes "getSelectedText w = Inl e \<or>
           (\<exists>t. getSelectedText w = Inr t \<and>
                fst (executeAICommand command t style m (showMsg progress ''info'' w)) = Inl e)"
  shows "inserted (handler progress command style m w) = inserted w \<and>
         (shown (handler progress command style m w) = shown w @ [(message e, ''error'')] \<or>
          shown (handler progress command style m w) =
            shown w @ [(progress, ''info''), (message e, ''error'')])"
proof (cases "getSelectedText w")
  case (Inl e')
  then show ?thesis using assms by (auto simp: tryBody_def handler_def showMsg_def)
next
  case (Inr t)
  let ?w0 = "showMsg progress ''info'' w"
  obtain r w2 where x: "executeAICommand command t style m ?w0 = (r, w2)"
    by (cases "executeAICommand command t style m ?w0")
  have r: "r = Inl e" using assms Inr x by simp
  have f: "inserted w2 = inserted w \<and> shown w2 = shown w @ [(progress, ''info'')]"
    using executeAICommand_frame [of command t style m ?w0] x by (simp add: showMsg_def)
  show ?thesis using Inr x r f by (simp add: tryBody_def handler_def showMsg_def)
qed

theorem handler_failure_leaves_document_witness:
  "getSelectedText (exampleWorld (Inr unauthorized)) = Inr ''The quick brown fox jumps.'' \<and>
   fst (executeAICommand ''summarize'' ''The quick brown fox jumps.'' None aiManager
          (showMsg ''Summarizing text...'' ''info'' (exampleWorld (Inr unauthorized)))) =
     Inl (Error ''AI provider not configured. Please set up your API key in settings.'') \<and>
   inserted (handler ''Summarizing text...'' ''summarize'' None aiManager
               (exampleWorld (Inr unauthorized))) = [] \<and>
   shown (handler ''Summarizing text...'' ''summarize'' None aiManager
               (exampleWorld (Inr unauthorized))) =
     [(''Summarizing text...'', ''info''),
      (''AI provider not configured. Please set up your API key in settings.'', ''error'')]"
proof -
  let ?w = "exampleWorld (Inr unauthorized)"
  let ?e = "Error ''AI provider not configured. Please set up your API key in settings.''"
  have h1: "getSelectedText ?w = Inr ''The quick brown fox jumps.''"
    by (simp add: getSelectedText_def exampleWorld_def)
  have h2: "fst (executeAICommand ''summarize'' ''The quick brown fox jumps.'' None aiManager
                   (showMsg ''Summarizing text...'' ''info'' ?w)) = Inl ?e"
    by (simp add: executeAICommand_def aiManager_def)
  have h: "getSelectedText ?w = Inl ?e \<or>
           (\<exists>t. getSelectedText ?w = Inr t \<and>
                fst (executeAICommand ''summarize'' t None aiManager
                       (showMsg ''Summarizing text...'' ''info'' ?w)) = Inl ?e)"
    using h1 h2 by simp
  have i: "inserted ?w = []" and s: "shown ?w = []" by (simp_all add: exampleWorld_def)
  have d: "length (shown (handler ''Summarizing text...'' ''summarize'' None aiManager ?w)) = 2"
    by (simp add: handler_def tryBody_def getSelectedText_def executeAICommand_def aiManager_def
        showMsg_def exampleWorld_def)
  show ?thesis
    using h1 h2 i s d handler_failure_leaves_document [OF h] by auto
qed

text \<open>
  C9. When the host reports no selection, absent or empty, every handler shows the message
  "No text selected. Please select some text first." at level "error" and does nothing
  else: the world is otherwise as before (no request was sent), and the Manager plays no
  part in the outcome.
\<close>

theorem handler_no_selection:
  assumes "selectedText w = None \<or> selectedText w = Some []"
  shows "handler progress command style m w =
           showMsg ''No text selected. Please select some text first.'' ''error'' w \<and>
         requests (handler progress command style m w) = requests w \<and>
         shown (handler progress command style m w) =
           shown w @ [(''No text selected. Please select some text first.'', ''error'')]"
  using assms by (auto simp: handler_def tryBody_def getSelectedText_def showMsg_def)

theorem handler_no_selection_witness:
  "selectedText ((exampleWorld (Inr unauthorized))\<lparr>selectedText := Some []\<rparr>) = Some [] \<and>
   requests (handler ''Improving text...'' ''improve'' None
               \<lparr>provider = Some (OpenAIProvider ''sk-test''), config = None\<rparr>
               ((exampleWorld (Inr unauthorized))\<lparr>selectedText := Some []\<rparr>)) = [] \<and>
   shown (handler ''Improving text...'' ''improve'' None
               \<lparr>provider = Some (OpenAIProvider ''sk-test''), config = None\<rparr>
               ((exampleWorld (Inr unauthorized))\<lparr>selectedText := Some []\<rparr>)) =
     [(''No text selected. Please select some text first.'', ''error'')]"
proof -
  let ?w = "(exampleWorld (Inr unauthorized))\<lparr>selectedText := Some []\<rparr>"
  have h1: "selectedText ?w = Some []" by simp
  have h: "selectedText ?w = None \<or> selectedText ?w = Some []" using h1 by simp
  have i: "requests ?w = []" and s: "shown ?w = []" by (simp_all add: exampleWorld_def)
  show ?thesis
    using h1 i s handler_no_selection [OF h, of "''Improving text...''" "''improve''" None
        "\<lparr>provider = Some (OpenAIProvider ''sk-test''), config = None\<rparr>", THEN conjunct2]
    by simp
qed

text \<open>
  C10. When there is a selection and the call of the Manager returns a result, but the
  host has no current block, the handler ends there: the world is the one the Manager's
  call left, the result is not inserted anywhere, and the only message shown is the
  progress message at level "info", shown before the call. No message follows it: the
  messages at level "success" or "error" are those that were there before.
\<close>

theorem handler_no_current_block:
  assumes "getSelectedText w = Inr t"
    and "fst (executeAICommand command t style m (showMsg progress ''info'' w)) = Inr result"
    and "currentBlock w = None"
  shows "handler progress command style m w =
           snd (executeAICommand command t style m (showMsg progress ''info'' w)) \<and>
         inserted (handler progress command style m w) = inserted w \<and>
         shown (handler progress command style m w) = shown w @ [(progress, ''info'')] \<and>
         filter (\<lambda>n. snd n = ''success'' \<or> snd n = ''error'')
             (shown (handler progress command style m w)) =
           filter (\<lambda>n. snd n = ''success'' \<or> snd n = ''error'') (shown w)"
proof -
  let ?w0 = "showMsg progress ''info'' w"
  obtain r w1 where x: "executeAICommand command t style m ?w0 = (r, w1)"
    by (cases "executeAICommand command t style m ?w0")
  have r: "r = Inr result" using assms(2) x by simp
  have f: "inserted w1 = inserted w \<and> shown w1 = shown w @ [(progress, ''info'')]
           \<and> currentBlock w1 = None"
    using executeAICommand_frame [of command t style m ?w0] x assms(3) by (simp add: showMsg_def)
  show ?thesis using assms(1) x r f by (simp add: handler_def tryBody_def)
qed

theorem handler_no_current_block_witness:
  "getSelectedText ((exampleWorld (Inr (success (openaiBody ''A fox jumps.''))))
                      \<lparr>currentBlock := None\<rparr>) = Inr ''The quick brown fox jumps.'' \<and>
   fst (executeAICommand ''summarize'' ''The quick brown fox jumps.'' None
          \<lparr>provider = Some (OpenAIProvider ''sk-test''), config = None\<rparr>
          (showMsg ''Summarizing text...'' ''info''
             ((exampleWorld (Inr (success (openaiBody ''A fox jumps.''))))
                \<lparr>currentBlock := None\<rparr>))) = Inr (String ''A fox jumps.'') \<and>
   currentBlock ((exampleWorld (Inr (success (openaiBody ''A fox jumps.''))))
                   \<lparr>currentBlock := None\<rparr>) = None \<and>
   inserted (handler ''Summarizing text...'' ''summarize'' None
               \<lparr>provider = Some (OpenAIProvider ''sk-test''), config = None\<rparr>
               ((exampleWorld (Inr (success (openaiBody ''A fox jumps.''))))
                  \<lparr>currentBlock := None\<rparr>)) = [] \<and>
   shown (handler ''Summarizing text...'' ''summarize'' None
               \<lparr>provider = Some (OpenAIProvider ''sk-test''), config = None\<rparr>
               ((exampleWorld (Inr (success (openaiBody ''A fox jumps.''))))
                  \<lparr>currentBlock := None\<rparr>)) = [(''Summarizing text...'', ''info'')]"
proof -
  let ?w = "(exampleWorld (Inr (success (openaiBody ''A fox jumps.''))))\<lparr>currentBlock := None\<rparr>"
  let ?m = "\<lparr>provider = Some (OpenAIProvider ''sk-test''), config = None\<rparr>"
  have h1: "getSelectedText ?w = Inr ''The quick brown fox jumps.''"
    by (simp add: getSelectedText_def exampleWorld_def)
  have h2: "fst (executeAICommand ''summarize'' ''The quick brown fox jumps.'' None ?m
                   (showMsg ''Summarizing text...'' ''info'' ?w)) = Inr (String ''A fox jumps.'')"
    by (simp add: executeAICommand_def dispatch_def summarizeText_def makeRequest_def fetch_def
        readResponse_def showMsg_def exampleWorld_def success_def openaiBody_def trim_def
        trimStart_def trimEnd_def isWhiteSpace_def)
  have h3: "currentBlock ?w = None" by simp
  have i: "inserted ?w = []" and s: "shown ?w = []" by (simp_all add: exampleWorld_def)
  show ?thesis
    using h1 h2 h3 i s handler_no_current_block [OF h1 h2 h3, THEN conjunct2] by simp
qed

end
